theory Spec2Isabelle
  imports Complex_Main
begin

section \<open>fmusim: forward Euler simulation of one FMU (fmusim.c)\<close>

text \<open>
  The development embeds \<^verbatim>\<open>fmuSimulate\<close> of \<^verbatim>\<open>fmusim.c\<close>. A C \<^verbatim>\<open>double\<close> is
  read as a real number: the operations the function applies to times, states and
  indicators (\<^verbatim>\<open>+ - * < >\<close>) are the real ones, so rounding, infinities and NaN
  are outside the model. The counters are C \<^verbatim>\<open>int\<close>s that only ever count up
  from zero; they are read as unbounded integers. Diagnostics printed to
  \<^verbatim>\<open>stderr\<close> and the wall-clock timing are not part of the model, with the
  exception of the messages handed to \<^verbatim>\<open>fmuError\<close>.
\<close>

subsection \<open>The FMI types the simulator uses\<close>

text \<open>
  Modelled from the spec: the declaration of \<^verbatim>\<open>fmiStatus\<close> lives in the FMI header,
  which is not among the sources. The spec orders the statuses by severity ("ok",
  "warning", then the ones that abort); the constructors below are listed in increasing
  severity and \<open>status_rank\<close> is the position that the comparison
  \<^verbatim>\<open>fmiFlag > fmiWarning\<close> of the source compares.
\<close>

datatype fmiStatus = fmiOK | fmiWarning | fmiDiscard | fmiError | fmiFatal

fun status_rank :: "fmiStatus \<Rightarrow> nat" where
  "status_rank fmiOK = 0"
| "status_rank fmiWarning = 1"
| "status_rank fmiDiscard = 2"
| "status_rank fmiError = 3"
| "status_rank fmiFatal = 4"

definition status_gt :: "fmiStatus \<Rightarrow> fmiStatus \<Rightarrow> bool" where
  "status_gt a b = (status_rank b < status_rank a)"

text \<open>
  Modelled from the spec: \<^verbatim>\<open>fmiEventInfo\<close> is declared in the same missing header.
  The spec lists its content: flags for a termination request, for changed state values,
  for a changed set of state variables, for a pending time event, and the scheduled time
  of that event. These are the fields \<^verbatim>\<open>fmuSimulate\<close> reads.
\<close>

record fmiEventInfo =
  stateValueReferencesChanged :: bool
  stateValuesChanged :: bool
  terminateSimulation :: bool
  upcomingTimeEvent :: bool
  nextEventTime :: real

subsection \<open>The macro and the array loops\<close>

text \<open>\<^verbatim>\<open>#define min(a,b) (a>b ? b : a)\<close>\<close>

definition min_macro :: "real \<Rightarrow> real \<Rightarrow> real" where
  "min_macro a b = (if a > b then b else a)"

text \<open>
  \<^verbatim>\<open>for (i=0; i<nx; i++) x[i] += dt*xdot[i];\<close>
  The loop is entered with \<open>i = 0\<close>. The arrays have \<open>nx\<close> cells; an index beyond
  the list leaves it as it is (the C arrays are allocated with exactly \<open>nx\<close> cells, so
  the loop never reaches one).
\<close>

function euler_loop :: "nat \<Rightarrow> nat \<Rightarrow> real \<Rightarrow> real list \<Rightarrow> real list \<Rightarrow> real list" where
  "euler_loop i nx dt xdot x =
     (if i < nx then euler_loop (i + 1) nx dt xdot (x[i := x ! i + dt * xdot ! i]) else x)"
  by pat_completeness auto
termination
  by (relation "measure (\<lambda>(i, nx, dt, xdot, x). nx - i)") auto

text \<open>
  \<^verbatim>\<open>for (i=0; i<nz; i++) stateEvent = stateEvent || (prez[i] * z[i] < 0);\<close>
\<close>

function stateEvent_loop :: "nat \<Rightarrow> nat \<Rightarrow> real list \<Rightarrow> real list \<Rightarrow> bool \<Rightarrow> bool" where
  "stateEvent_loop i nz prez z stateEvent =
     (if i < nz then stateEvent_loop (i + 1) nz prez z (stateEvent \<or> prez ! i * z ! i < 0)
      else stateEvent)"
  by pat_completeness auto
termination
  by (relation "measure (\<lambda>(i, nz, prez, z, stateEvent). nz - i)") auto

text \<open>\<^verbatim>\<open>for (i=0; i<nz; i++) prez[i] = z[i];\<close>\<close>

function copy_loop :: "nat \<Rightarrow> nat \<Rightarrow> real list \<Rightarrow> real list \<Rightarrow> real list" where
  "copy_loop i nz z prez =
     (if i < nz then copy_loop (i + 1) nz z (prez[i := z ! i]) else prez)"
  by pat_completeness auto
termination
  by (relation "measure (\<lambda>(i, nz, z, prez). nz - i)") auto

subsection \<open>The model, the environment and what the simulator does to them\<close>

text \<open>
  The FMU is a table of function pointers working on an instance \<^verbatim>\<open>c\<close>, whose state
  is of an arbitrary type \<open>'m\<close>. A C function that writes through a pointer returns
  what it has written: the functions filling an array take the array as it is and return
  it as they leave it, \<^verbatim>\<open>eventUpdate\<close> takes and returns the event record,
  \<^verbatim>\<open>completedIntegratorStep\<close> returns the flag, and each returns the instance as
  it leaves it. \<^verbatim>\<open>instantiateModel\<close> returns \<open>None\<close> for a null pointer. The two
  counts are what \<^verbatim>\<open>getNumberOfStates\<close> and \<^verbatim>\<open>getNumberOfEventIndicators\<close>
  read from the model description.
\<close>

record 'm FMU =
  numberOfStates :: nat
  numberOfEventIndicators :: nat
  instantiateModel :: "bool \<Rightarrow> 'm option"
  setTime :: "'m \<Rightarrow> real \<Rightarrow> fmiStatus \<times> 'm"
  initialize :: "'m \<Rightarrow> bool \<Rightarrow> real \<Rightarrow> fmiStatus \<times> fmiEventInfo \<times> 'm"
  getContinuousStates :: "'m \<Rightarrow> real list \<Rightarrow> nat \<Rightarrow> fmiStatus \<times> real list \<times> 'm"
  getDerivatives :: "'m \<Rightarrow> real list \<Rightarrow> nat \<Rightarrow> fmiStatus \<times> real list \<times> 'm"
  setContinuousStates :: "'m \<Rightarrow> real list \<Rightarrow> nat \<Rightarrow> fmiStatus \<times> 'm"
  completedIntegratorStep :: "'m \<Rightarrow> fmiStatus \<times> bool \<times> 'm"
  getEventIndicators :: "'m \<Rightarrow> real list \<Rightarrow> nat \<Rightarrow> fmiStatus \<times> real list \<times> 'm"
  eventUpdate :: "'m \<Rightarrow> bool \<Rightarrow> fmiEventInfo \<Rightarrow> fmiStatus \<times> fmiEventInfo \<times> 'm"

text \<open>
  What the C library answers: whether the \<^verbatim>\<open>calloc\<close> calls deliver the arrays, and
  whether \<^verbatim>\<open>fopen\<close> opens the named file for writing.
\<close>

record env =
  calloc_ok :: bool
  fopen_ok :: "string \<Rightarrow> bool"

text \<open>
  Every call that leaves \<^verbatim>\<open>fmuSimulate\<close> is recorded, in order, with the arguments
  that matter here: the calls of the FMU, \<^verbatim>\<open>outputRow\<close> with its time and its
  header flag, \<^verbatim>\<open>fopen\<close> and \<^verbatim>\<open>fclose\<close>, \<^verbatim>\<open>fmuError\<close> with its
  message, and the summary printed at the end with the four counters (steps, time events,
  state events, step events).
\<close>

datatype call =
    InstantiateModel bool
  | SetTime real
  | Initialize bool real
  | GetContinuousStates
  | GetDerivatives
  | SetContinuousStates "real list"
  | CompletedIntegratorStep
  | GetEventIndicators
  | EventUpdate bool
  | FreeModelInstance
  | Fopen string
  | OutputRow real bool
  | Fclose
  | FmuError string
  | Summary int int int int

datatype FILE = Stdout | Opened string

text \<open>
  The local variables of \<^verbatim>\<open>fmuSimulate\<close>, each under its own name followed by
  \<open>_'\<close>, and the record of calls. \<^verbatim>\<open>file_'\<close> is \<open>None\<close> for the null pointer.
\<close>

record 'm frame =
  c_' :: 'm
  nx_' :: nat
  nz_' :: nat
  x_' :: "real list"
  xdot_' :: "real list"
  z_' :: "real list"
  prez_' :: "real list"
  eventInfo_' :: fmiEventInfo
  simtime_' :: real
  tEnd_' :: real
  h_' :: real
  dt_' :: real
  tPre_' :: real
  timeEvent_' :: bool
  stateEvent_' :: bool
  stepEvent_' :: bool
  loggingOn_' :: bool
  nSteps_' :: int
  nTimeEvents_' :: int
  nStepEvents_' :: int
  nStateEvents_' :: int
  file_' :: "FILE option"
  trace :: "call list"

text \<open>
  How a piece of the function ends: control goes on to the next statement, leaves the
  loop by \<^verbatim>\<open>break\<close>, or leaves the function by \<^verbatim>\<open>return\<close> with a value.
\<close>

datatype 'a flow = Next 'a | Break 'a | Return int 'a

text \<open>
  The statements of a block, one after the other, up to the first that leaves the block.
\<close>

fun seq :: "('a \<Rightarrow> 'a flow) list \<Rightarrow> 'a \<Rightarrow> 'a flow" where
  "seq [] s = Next s"
| "seq (f # fs) s = (case f s of Next s' \<Rightarrow> seq fs s' | Break s' \<Rightarrow> Break s' | Return r s' \<Rightarrow> Return r s')"

text \<open>
  \<^verbatim>\<open>fmiReal t0 = 0;\<close> and \<^verbatim>\<open>fmiBoolean toleranceControlled = fmiFalse;\<close>
\<close>

definition t0 :: real where
  "t0 = 0"

definition toleranceControlled :: bool where
  "toleranceControlled = False"

text \<open>
  Modelled from the spec: \<^verbatim>\<open>fmuError\<close> is defined outside the sources. The spec has a
  failure "surfaced as a single diagnostic and a non-success result", and the source
  returns its value where it returns \<^verbatim>\<open>0\<close> for failure itself: the message is
  reported and the value is 0.
\<close>

definition fmuError :: "string \<Rightarrow> call list \<Rightarrow> int \<times> call list" where
  "fmuError message tr = (0, tr @ [FmuError message])"

text \<open>\<^verbatim>\<open>return fmuError(message);\<close> and the statement \<^verbatim>\<open>fmuError(message);\<close>\<close>

definition return_fmuError :: "string \<Rightarrow> 'm frame \<Rightarrow> 'm frame flow" where
  "return_fmuError message s =
     (case fmuError message (trace s) of (r, tr) \<Rightarrow> Return r (s\<lparr>trace := tr\<rparr>))"

definition call_fmuError :: "string \<Rightarrow> 'm frame \<Rightarrow> 'm frame" where
  "call_fmuError message s =
     (case fmuError message (trace s) of (r, tr) \<Rightarrow> s\<lparr>trace := tr\<rparr>)"

text \<open>
  Modelled from the spec: \<^verbatim>\<open>outputRow\<close> is defined outside the sources. The spec has
  the row sink receive "a simulated-time-stamped row of output values", the first row
  listing the column headers: the call is recorded with its time and its header flag.
\<close>

definition outputRow :: "real \<Rightarrow> bool \<Rightarrow> call list \<Rightarrow> call list" where
  "outputRow time header tr = tr @ [OutputRow time header]"

subsection \<open>Before the loop (lines 45 to 95)\<close>

text \<open>
  The function up to the loop. An early \<^verbatim>\<open>return\<close> gives the value and the calls
  made so far; otherwise the result is the frame with which the loop is entered. A failed
  \<^verbatim>\<open>initialize\<close> is reported and the function goes on. The locals that C leaves
  without a value at this point (\<^verbatim>\<open>dt\<close>, \<^verbatim>\<open>tPre\<close> and the three event flags)
  are given one; the loop writes each of them before it reads it.
\<close>

definition open_result_file :: "env \<Rightarrow> string option \<Rightarrow> call list \<Rightarrow> (int \<times> call list) + (FILE option \<times> call list)" where
  "open_result_file e resultFileName tr =
     (case resultFileName of
        None \<Rightarrow> Inr (None, tr)
      | Some name \<Rightarrow>
          if length name = 1 \<and> name ! 0 = CHR ''-'' then Inr (Some Stdout, tr)
          else if fopen_ok e name then Inr (Some (Opened name), tr @ [Fopen name])
          else Inl (0, tr @ [Fopen name]))"

definition fmuSimulate_setup ::
  "'m FMU \<Rightarrow> env \<Rightarrow> real \<Rightarrow> real \<Rightarrow> bool \<Rightarrow> string option \<Rightarrow> (int \<times> call list) + 'm frame" where
  "fmuSimulate_setup fmu e tEnd h loggingOn resultFileName =
     (case instantiateModel fmu loggingOn of
        None \<Rightarrow> Inl (fmuError ''could not instantiate model'' [InstantiateModel loggingOn])
      | Some c0 \<Rightarrow>
          if \<not> calloc_ok e then Inl (fmuError ''out of memory'' [InstantiateModel loggingOn])
          else
            (case open_result_file e resultFileName [InstantiateModel loggingOn] of
               Inl r \<Rightarrow> Inl r
             | Inr (file, tr1) \<Rightarrow>
                 (case setTime fmu c0 t0 of (fmiFlag, c1) \<Rightarrow>
                    if status_gt fmiFlag fmiWarning
                    then Inl (fmuError ''could not set time'' (tr1 @ [SetTime t0]))
                    else
                      (case initialize fmu c1 toleranceControlled t0 of (fmiFlag2, eventInfo, c2) \<Rightarrow>
                         let tr2 = tr1 @ [SetTime t0, Initialize toleranceControlled t0];
                             tr3 = (if status_gt fmiFlag2 fmiWarning
                                    then snd (fmuError ''could not initialize model'' tr2) else tr2);
                             tEnd1 = (if terminateSimulation eventInfo then t0 else tEnd);
                             tr4 = (if file \<noteq> None
                                    then outputRow t0 False (outputRow t0 True tr3) else tr3)
                         in Inr \<lparr> c_' = c2,
                                  nx_' = numberOfStates fmu,
                                  nz_' = numberOfEventIndicators fmu,
                                  x_' = replicate (numberOfStates fmu) 0,
                                  xdot_' = replicate (numberOfStates fmu) 0,
                                  z_' = replicate (numberOfEventIndicators fmu) 0,
                                  prez_' = replicate (numberOfEventIndicators fmu) 0,
                                  eventInfo_' = eventInfo,
                                  simtime_' = t0,
                                  tEnd_' = tEnd1,
                                  h_' = h,
                                  dt_' = 0,
                                  tPre_' = 0,
                                  timeEvent_' = False,
                                  stateEvent_' = False,
                                  stepEvent_' = False,
                                  loggingOn_' = loggingOn,
                                  nSteps_' = 0,
                                  nTimeEvents_' = 0,
                                  nStepEvents_' = 0,
                                  nStateEvents_' = 0,
                                  file_' = file,
                                  trace = tr4 \<rparr>))))"

subsection \<open>One pass through the loop body (lines 99 to 173)\<close>

text \<open>Lines 100 and 101.\<close>

definition get_states :: "'m FMU \<Rightarrow> 'm frame \<Rightarrow> 'm frame flow" where
  "get_states fmu s =
     (case getContinuousStates fmu (c_' s) (x_' s) (nx_' s) of (fmiFlag, x1, c1) \<Rightarrow>
        let s1 = s\<lparr>c_' := c1, x_' := x1, trace := trace s @ [GetContinuousStates]\<rparr>
        in if status_gt fmiFlag fmiWarning
           then return_fmuError ''could not retrieve states'' s1 else Next s1)"

text \<open>Lines 102 and 103.\<close>

definition get_derivatives :: "'m FMU \<Rightarrow> 'm frame \<Rightarrow> 'm frame flow" where
  "get_derivatives fmu s =
     (case getDerivatives fmu (c_' s) (xdot_' s) (nx_' s) of (fmiFlag, xdot1, c1) \<Rightarrow>
        let s1 = s\<lparr>c_' := c1, xdot_' := xdot1, trace := trace s @ [GetDerivatives]\<rparr>
        in if status_gt fmiFlag fmiWarning
           then return_fmuError ''could not retrieve derivatives'' s1 else Next s1)"

text \<open>Lines 106 to 110: the new time, the time-event flag and the length of the step.\<close>

definition advance_simtime :: "'m frame \<Rightarrow> 'm frame" where
  "advance_simtime s =
     (let s1 = s\<lparr>tPre_' := simtime_' s\<rparr>;
          s2 = s1\<lparr>simtime_' := min_macro (simtime_' s1 + h_' s1) (tEnd_' s1)\<rparr>;
          s3 = s2\<lparr>timeEvent_' :=
                    (upcomingTimeEvent (eventInfo_' s2) \<and> nextEventTime (eventInfo_' s2) < simtime_' s2)\<rparr>;
          s4 = (if timeEvent_' s3 then s3\<lparr>simtime_' := nextEventTime (eventInfo_' s3)\<rparr> else s3)
      in s4\<lparr>dt_' := simtime_' s4 - tPre_' s4\<rparr>)"

text \<open>
  Lines 111 and 112. The source calls \<^verbatim>\<open>fmuError\<close> here without returning its
  value, so control goes on.
\<close>

definition set_new_time :: "'m FMU \<Rightarrow> 'm frame \<Rightarrow> 'm frame flow" where
  "set_new_time fmu s =
     (case setTime fmu (c_' s) (simtime_' s) of (fmiFlag, c1) \<Rightarrow>
        let s1 = s\<lparr>c_' := c1, trace := trace s @ [SetTime (simtime_' s)]\<rparr>
        in if status_gt fmiFlag fmiWarning
           then Next (call_fmuError ''could not set time'' s1) else Next s1)"

text \<open>Lines 115 to 117.\<close>

definition perform_step :: "'m FMU \<Rightarrow> 'm frame \<Rightarrow> 'm frame flow" where
  "perform_step fmu s =
     (let s1 = s\<lparr>x_' := euler_loop 0 (nx_' s) (dt_' s) (xdot_' s) (x_' s)\<rparr>
      in case setContinuousStates fmu (c_' s1) (x_' s1) (nx_' s1) of (fmiFlag, c1) \<Rightarrow>
           let s2 = s1\<lparr>c_' := c1, trace := trace s1 @ [SetContinuousStates (x_' s1)]\<rparr>
           in if status_gt fmiFlag fmiWarning
              then return_fmuError ''could not set states'' s2 else Next s2)"

text \<open>Lines 121 and 122.\<close>

definition check_step_event :: "'m FMU \<Rightarrow> 'm frame \<Rightarrow> 'm frame flow" where
  "check_step_event fmu s =
     (case completedIntegratorStep fmu (c_' s) of (fmiFlag, stepEvent, c1) \<Rightarrow>
        let s1 = s\<lparr>c_' := c1, stepEvent_' := stepEvent,
                   trace := trace s @ [CompletedIntegratorStep]\<rparr>
        in if status_gt fmiFlag fmiWarning
           then return_fmuError ''could not complete intgrator step'' s1 else Next s1)"

text \<open>Lines 125 to 130.\<close>

definition check_state_event :: "'m FMU \<Rightarrow> 'm frame \<Rightarrow> 'm frame flow" where
  "check_state_event fmu s =
     (let s1 = s\<lparr>prez_' := copy_loop 0 (nz_' s) (z_' s) (prez_' s)\<rparr>
      in case getEventIndicators fmu (c_' s1) (z_' s1) (nz_' s1) of (fmiFlag, z1, c1) \<Rightarrow>
           let s2 = s1\<lparr>c_' := c1, z_' := z1, trace := trace s1 @ [GetEventIndicators]\<rparr>
           in if status_gt fmiFlag fmiWarning
              then return_fmuError ''could not retrieve event indicators'' s2
              else Next (s2\<lparr>stateEvent_' := stateEvent_loop 0 (nz_' s2) (prez_' s2) (z_' s2) False\<rparr>))"

text \<open>Lines 135 to 148: the counters of the events that fired.\<close>

definition count_events :: "'m frame \<Rightarrow> 'm frame" where
  "count_events s =
     (let s1 = (if timeEvent_' s then s\<lparr>nTimeEvents_' := nTimeEvents_' s + 1\<rparr> else s);
          s2 = (if stateEvent_' s1 then s1\<lparr>nStateEvents_' := nStateEvents_' s1 + 1\<rparr> else s1)
      in if stepEvent_' s2 then s2\<lparr>nStepEvents_' := nStepEvents_' s2 + 1\<rparr> else s2)"

text \<open>Lines 133 to 170.\<close>

definition handle_events :: "'m FMU \<Rightarrow> 'm frame \<Rightarrow> 'm frame flow" where
  "handle_events fmu s =
     (if timeEvent_' s \<or> stateEvent_' s \<or> stepEvent_' s then
        let s3 = count_events s
        in case eventUpdate fmu (c_' s3) False (eventInfo_' s3) of (fmiFlag, eventInfo, c1) \<Rightarrow>
             let s4 = s3\<lparr>c_' := c1, eventInfo_' := eventInfo,
                        trace := trace s3 @ [EventUpdate False]\<rparr>
             in if status_gt fmiFlag fmiWarning
                then return_fmuError ''could not perform event update'' s4
                else if terminateSimulation (eventInfo_' s4) then Break s4
                else Next s4
      else Next s)"

text \<open>Lines 171 to 173.\<close>

definition output_step :: "'m frame \<Rightarrow> 'm frame flow" where
  "output_step s =
     (let s1 = (if file_' s \<noteq> None
                then s\<lparr>trace := outputRow (simtime_' s) False (trace s)\<rparr> else s)
      in Next (s1\<lparr>nSteps_' := nSteps_' s1 + 1\<rparr>))"

definition loop_body :: "'m FMU \<Rightarrow> 'm frame \<Rightarrow> 'm frame flow" where
  "loop_body fmu =
     seq [get_states fmu, get_derivatives fmu, (\<lambda>s. Next (advance_simtime s)),
          set_new_time fmu, perform_step fmu, check_step_event fmu,
          check_state_event fmu, handle_events fmu, output_step]"

subsection \<open>The loop, the end of the function, and the function\<close>

text \<open>
  \<^verbatim>\<open>while (simtime < tEnd) { ... }\<close> may run for ever (a step size that is not
  positive, a model that schedules the same time event again and again), so the loop
  carries the number of passes it may still make; when none is left it stops with
  \<open>Unfinished\<close> and the frame it has reached.
\<close>

datatype 'a stop = Finished 'a | Terminated 'a | Aborted int 'a | Unfinished 'a

fun sim_loop :: "nat \<Rightarrow> 'm FMU \<Rightarrow> 'm frame \<Rightarrow> 'm frame stop" where
  "sim_loop 0 fmu s = (if simtime_' s < tEnd_' s then Unfinished s else Finished s)"
| "sim_loop (Suc n) fmu s =
     (if simtime_' s < tEnd_' s then
        (case loop_body fmu s of
           Next s' \<Rightarrow> sim_loop n fmu s'
         | Break s' \<Rightarrow> Terminated s'
         | Return r s' \<Rightarrow> Aborted r s')
      else Finished s)"

text \<open>
  Lines 176 to 200: the instance is released, the file is closed if there is one, the
  arrays are freed, the summary is printed and the value is 1.
\<close>

definition fmuSimulate_cleanup :: "'m frame \<Rightarrow> int \<times> call list" where
  "fmuSimulate_cleanup s =
     (let tr1 = trace s @ [FreeModelInstance];
          tr2 = (if file_' s \<noteq> None then tr1 @ [Fclose] else tr1)
      in (1, tr2 @ [Summary (nSteps_' s) (nTimeEvents_' s) (nStateEvents_' s) (nStepEvents_' s)]))"

text \<open>
  The function: the value it returns, if it returns within the given number of passes
  through the loop, and the calls it has made.
\<close>

definition fmuSimulate ::
  "nat \<Rightarrow> 'm FMU \<Rightarrow> env \<Rightarrow> real \<Rightarrow> real \<Rightarrow> bool \<Rightarrow> char \<Rightarrow> string option \<Rightarrow> int option \<times> call list" where
  "fmuSimulate fuel fmu e tEnd h loggingOn separator resultFileName =
     (case fmuSimulate_setup fmu e tEnd h loggingOn resultFileName of
        Inl (r, tr) \<Rightarrow> (Some r, tr)
      | Inr s \<Rightarrow>
          (case sim_loop fuel fmu s of
             Finished s' \<Rightarrow> (case fmuSimulate_cleanup s' of (r, tr) \<Rightarrow> (Some r, tr))
           | Terminated s' \<Rightarrow> (case fmuSimulate_cleanup s' of (r, tr) \<Rightarrow> (Some r, tr))
           | Aborted r s' \<Rightarrow> (Some r, trace s')
           | Unfinished s' \<Rightarrow> (None, trace s')))"

subsection \<open>What is observed of a run\<close>

text \<open>The frame with which a piece of the function, or the loop, ends.\<close>

fun flow_state :: "'a flow \<Rightarrow> 'a" where
  "flow_state (Next s) = s"
| "flow_state (Break s) = s"
| "flow_state (Return r s) = s"


text \<open>
  The rows written, each with its time and its header flag, and the times handed to the
  model, in the order of the calls.
\<close>

primrec rows :: "call list \<Rightarrow> (real \<times> bool) list" where
  "rows [] = []"
| "rows (a # tr) = (case a of OutputRow t header \<Rightarrow> (t, header) # rows tr | _ \<Rightarrow> rows tr)"

primrec set_times :: "call list \<Rightarrow> real list" where
  "set_times [] = []"
| "set_times (a # tr) = (case a of SetTime t \<Rightarrow> t # set_times tr | _ \<Rightarrow> set_times tr)"






subsection \<open>Models used as examples\<close>

text \<open>
  A model with one state \<open>x\<close> and one event indicator \<open>1 - x\<close>. Its instance is the
  state vector, which starts at \<open>[0]\<close>; the derivative is the constant 2; every operation
  succeeds; no time event is scheduled, no step event is reported, and an event update
  clears a pending time event.
\<close>

definition no_event :: fmiEventInfo where
  "no_event = \<lparr> stateValueReferencesChanged = False, stateValuesChanged = False,
      terminateSimulation = False, upcomingTimeEvent = False, nextEventTime = 0 \<rparr>"

definition ramp :: "real list FMU" where
  "ramp = \<lparr> numberOfStates = 1, numberOfEventIndicators = 1,
      instantiateModel = (\<lambda>loggingOn. Some [0]),
      setTime = (\<lambda>c time. (fmiOK, c)),
      initialize = (\<lambda>c tc relTol. (fmiOK, no_event, c)),
      getContinuousStates = (\<lambda>c x nx. (fmiOK, c, c)),
      getDerivatives = (\<lambda>c xdot nx. (fmiOK, [2], c)),
      setContinuousStates = (\<lambda>c x nx. (fmiOK, x)),
      completedIntegratorStep = (\<lambda>c. (fmiOK, False, c)),
      getEventIndicators = (\<lambda>c z nz. (fmiOK, [1 - c ! 0], c)),
      eventUpdate = (\<lambda>c intermediateResults eventInfo.
         (fmiOK, eventInfo\<lparr>upcomingTimeEvent := False\<rparr>, c)) \<rparr>"




definition no_clock :: "real list FMU" where
  "no_clock = ramp\<lparr>setTime := (\<lambda>c time. (if 0 < time then fmiError else fmiOK, c))\<rparr>"

definition no_states :: "real list FMU" where
  "no_states = ramp\<lparr>getContinuousStates := (\<lambda>c x nx. (fmiError, x, c))\<rparr>"

text \<open>
  A C library whose allocations and \<^verbatim>\<open>fopen\<close> succeed, and the frame with which a run
  under it, without logging, enters the loop.
\<close>

definition libc :: env where
  "libc = \<lparr> calloc_ok = True, fopen_ok = (\<lambda>name. True) \<rparr>"

definition entry :: "'m FMU \<Rightarrow> real \<Rightarrow> real \<Rightarrow> string option \<Rightarrow> 'm frame" where
  "entry fmu tEnd h resultFileName = projr (fmuSimulate_setup fmu libc tEnd h False resultFileName)"

section \<open>Properties\<close>

declare euler_loop.simps [simp del] stateEvent_loop.simps [simp del] copy_loop.simps [simp del]

subsection \<open>The array loops\<close>

lemma stateEvent_loop_iff:
  "stateEvent_loop i nz prez z b \<longleftrightarrow> b \<or> (\<exists>j. i \<le> j \<and> j < nz \<and> prez ! j * z ! j < 0)"
proof (induction i nz prez z b rule: stateEvent_loop.induct)
  case (1 i nz prez z b)
  show ?case
  proof (cases "i < nz")
    case True
    have le: "\<And>j. i \<le> j \<longleftrightarrow> j = i \<or> i + 1 \<le> j"
      by arith
    have split: "(\<exists>j. i \<le> j \<and> j < nz \<and> prez ! j * z ! j < 0) \<longleftrightarrow>
        prez ! i * z ! i < 0 \<or> (\<exists>j. i + 1 \<le> j \<and> j < nz \<and> prez ! j * z ! j < 0)"
      using True by (auto simp: le)
    from True have "stateEvent_loop i nz prez z b =
        stateEvent_loop (i + 1) nz prez z (b \<or> prez ! i * z ! i < 0)"
      by (subst stateEvent_loop.simps) simp
    also have "\<dots> \<longleftrightarrow> (b \<or> prez ! i * z ! i < 0) \<or>
        (\<exists>j. i + 1 \<le> j \<and> j < nz \<and> prez ! j * z ! j < 0)"
      using "1.IH" [OF True] .
    finally show ?thesis using split by blast
  next
    case False
    then show ?thesis by (subst stateEvent_loop.simps) auto
  qed
qed



lemma length_copy_loop: "length (copy_loop i nz z prez) = length prez"
proof (induction i nz z prez rule: copy_loop.induct)
  case (1 i nz z prez)
  then show ?case by (subst copy_loop.simps) simp
qed

lemma nth_copy_loop:
  "j < length prez \<Longrightarrow> copy_loop i nz z prez ! j = (if i \<le> j \<and> j < nz then z ! j else prez ! j)"
proof (induction i nz z prez rule: copy_loop.induct)
  case (1 i nz z prez)
  show ?case
  proof (cases "i < nz")
    case True
    have "copy_loop i nz z prez ! j = copy_loop (i + 1) nz z (prez[i := z ! i]) ! j"
      using True by (subst copy_loop.simps) simp
    also have "\<dots> = (if i + 1 \<le> j \<and> j < nz then z ! j else prez[i := z ! i] ! j)"
      using "1.IH" [OF True] "1.prems" by simp
    also have "\<dots> = (if i \<le> j \<and> j < nz then z ! j else prez ! j)"
      using "1.prems" True by (cases "i = j") auto
    finally show ?thesis .
  next
    case False
    then show ?thesis by (subst copy_loop.simps) simp
  qed
qed

lemma copy_loop_all: "length prez = nz \<Longrightarrow> length z = nz \<Longrightarrow> copy_loop 0 nz z prez = z"
  by (rule nth_equalityI) (simp_all add: length_copy_loop nth_copy_loop)


subsection \<open>Sequences of statements and records of calls\<close>

lemma rows_append: "rows (xs @ ys) = rows xs @ rows ys"
  by (induction xs) (auto split: call.splits)

lemma set_times_append: "set_times (xs @ ys) = set_times xs @ set_times ys"
  by (induction xs) (auto split: call.splits)



lemma seq_Return: "f s = Return r s' \<Longrightarrow> seq (f # fs) s = Return r s'"
  by simp

subsection \<open>What each piece of the loop body does\<close>

lemmas error_defs = return_fmuError_def call_fmuError_def fmuError_def Let_def

lemma get_states_effect:
  "\<exists>c1 x1 tr. flow_state (get_states fmu s) = s\<lparr>c_' := c1, x_' := x1, trace := trace s @ tr\<rparr>
     \<and> rows tr = [] \<and> set_times tr = []"
  by (cases "getContinuousStates fmu (c_' s) (x_' s) (nx_' s)")
    (force simp: get_states_def error_defs)

lemma get_derivatives_effect:
  "\<exists>c1 x1 tr. flow_state (get_derivatives fmu s) = s\<lparr>c_' := c1, xdot_' := x1, trace := trace s @ tr\<rparr>
     \<and> rows tr = [] \<and> set_times tr = []"
  by (cases "getDerivatives fmu (c_' s) (xdot_' s) (nx_' s)")
    (force simp: get_derivatives_def error_defs)

lemma set_new_time_effect:
  "\<exists>c1 tr. set_new_time fmu s = Next (s\<lparr>c_' := c1, trace := trace s @ tr\<rparr>)
     \<and> rows tr = [] \<and> set_times tr = [simtime_' s]"
  by (cases "setTime fmu (c_' s) (simtime_' s)")
    (force simp: set_new_time_def error_defs)

lemma perform_step_effect:
  "\<exists>c1 tr. flow_state (perform_step fmu s) =
       s\<lparr>x_' := euler_loop 0 (nx_' s) (dt_' s) (xdot_' s) (x_' s), c_' := c1, trace := trace s @ tr\<rparr>
     \<and> rows tr = [] \<and> set_times tr = []"
  by (cases "setContinuousStates fmu (c_' s) (euler_loop 0 (nx_' s) (dt_' s) (xdot_' s) (x_' s)) (nx_' s)")
    (force simp: perform_step_def error_defs)

lemma check_step_event_effect:
  "\<exists>c1 b tr. flow_state (check_step_event fmu s) =
       s\<lparr>c_' := c1, stepEvent_' := b, trace := trace s @ tr\<rparr>
     \<and> rows tr = [] \<and> set_times tr = []"
  by (cases "completedIntegratorStep fmu (c_' s)")
    (force simp: check_step_event_def error_defs)

lemma check_state_event_effect:
  "\<exists>c1 z1 b tr. flow_state (check_state_event fmu s) =
       s\<lparr>prez_' := copy_loop 0 (nz_' s) (z_' s) (prez_' s), c_' := c1, z_' := z1,
          trace := trace s @ tr, stateEvent_' := b\<rparr>
     \<and> rows tr = [] \<and> set_times tr = []"
proof (cases "getEventIndicators fmu (c_' s) (z_' s) (nz_' s)")
  case (fields fmiFlag z1 c1)
  show ?thesis
  proof (cases "status_gt fmiFlag fmiWarning")
    case True
    with fields show ?thesis
      by (intro exI [of _ c1] exI [of _ z1] exI [of _ "stateEvent_' s"]
          exI [of _ "[GetEventIndicators, FmuError ''could not retrieve event indicators'']"])
        (simp add: check_state_event_def error_defs)
  next
    case False
    with fields show ?thesis
      by (intro exI [of _ c1] exI [of _ z1]
          exI [of _ "stateEvent_loop 0 (nz_' s) (copy_loop 0 (nz_' s) (z_' s) (prez_' s)) z1 False"]
          exI [of _ "[GetEventIndicators]"])
        (simp add: check_state_event_def error_defs)
  qed
qed

lemma check_state_event_Next:
  assumes "check_state_event fmu s = Next s'"
  shows "prez_' s' = copy_loop 0 (nz_' s) (z_' s) (prez_' s) \<and>
         stateEvent_' s' = stateEvent_loop 0 (nz_' s) (prez_' s') (z_' s') False \<and>
         (\<exists>c. z_' s' = fst (snd (getEventIndicators fmu c (z_' s) (nz_' s))))"
proof (cases "getEventIndicators fmu (c_' s) (z_' s) (nz_' s)")
  case (fields fmiFlag z1 c1)
  with assms have "\<not> status_gt fmiFlag fmiWarning"
    by (auto simp: check_state_event_def error_defs split: if_splits)
  with fields assms have "s' = s\<lparr>prez_' := copy_loop 0 (nz_' s) (z_' s) (prez_' s), c_' := c1,
      z_' := z1, trace := trace s @ [GetEventIndicators],
      stateEvent_' := stateEvent_loop 0 (nz_' s) (copy_loop 0 (nz_' s) (z_' s) (prez_' s)) z1 False\<rparr>"
    by (simp add: check_state_event_def error_defs)
  with fields show ?thesis
    by (auto intro: exI [of _ "c_' s"])
qed

lemma count_events_effect:
  "\<exists>k1 k2 k3. count_events s = s\<lparr>nTimeEvents_' := k1, nStateEvents_' := k2, nStepEvents_' := k3\<rparr>"
proof -
  have "count_events s = s\<lparr>nTimeEvents_' := (if timeEvent_' s then nTimeEvents_' s + 1 else nTimeEvents_' s),
      nStateEvents_' := (if stateEvent_' s then nStateEvents_' s + 1 else nStateEvents_' s),
      nStepEvents_' := (if stepEvent_' s then nStepEvents_' s + 1 else nStepEvents_' s)\<rparr>"
    by (cases "timeEvent_' s"; cases "stateEvent_' s"; cases "stepEvent_' s")
      (simp_all add: count_events_def)
  then show ?thesis by blast
qed

lemma handle_events_effect:
  "\<exists>c1 ei k1 k2 k3 tr. flow_state (handle_events fmu s) =
       s\<lparr>nTimeEvents_' := k1, nStateEvents_' := k2, nStepEvents_' := k3,
          c_' := c1, eventInfo_' := ei, trace := trace s @ tr\<rparr>
     \<and> rows tr = [] \<and> set_times tr = []"
proof (cases "timeEvent_' s \<or> stateEvent_' s \<or> stepEvent_' s")
  case False
  then have "flow_state (handle_events fmu s) = s"
    by (simp add: handle_events_def)
  then show ?thesis
    by (intro exI [of _ "c_' s"] exI [of _ "eventInfo_' s"] exI [of _ "nTimeEvents_' s"]
        exI [of _ "nStateEvents_' s"] exI [of _ "nStepEvents_' s"] exI [of _ "[]"]) simp
next
  case True
  obtain k1 k2 k3 where s3: "count_events s = s\<lparr>nTimeEvents_' := k1, nStateEvents_' := k2, nStepEvents_' := k3\<rparr>"
    using count_events_effect by blast
  obtain fmiFlag ei c1 where upd: "eventUpdate fmu (c_' s) False (eventInfo_' s) = (fmiFlag, ei, c1)"
    by (rule prod_cases3)
  have "flow_state (handle_events fmu s) =
      s\<lparr>nTimeEvents_' := k1, nStateEvents_' := k2, nStepEvents_' := k3, c_' := c1, eventInfo_' := ei,
        trace := trace s @ EventUpdate False #
          (if status_gt fmiFlag fmiWarning then [FmuError ''could not perform event update''] else [])\<rparr>"
    using True upd by (simp add: handle_events_def error_defs s3)
  then show ?thesis
    by (intro exI [of _ c1] exI [of _ ei] exI [of _ k1] exI [of _ k2] exI [of _ k3]
        exI [of _ "EventUpdate False #
          (if status_gt fmiFlag fmiWarning then [FmuError ''could not perform event update''] else [])"])
      simp
qed

lemma output_step_effect:
  "output_step s = Next (s\<lparr>trace := trace s @ (if file_' s \<noteq> None then [OutputRow (simtime_' s) False] else []),
       nSteps_' := nSteps_' s + 1\<rparr>)"
  by (simp add: output_step_def outputRow_def Let_def)

lemma get_states_kind: "get_states fmu s \<noteq> Break s'" "get_states fmu s = Return r s' \<Longrightarrow> r = 0"
  by (auto simp: get_states_def error_defs split: prod.splits if_splits)

lemma get_derivatives_kind: "get_derivatives fmu s \<noteq> Break s'" "get_derivatives fmu s = Return r s' \<Longrightarrow> r = 0"
  by (auto simp: get_derivatives_def error_defs split: prod.splits if_splits)

lemma set_new_time_kind: "set_new_time fmu s \<noteq> Break s'" "set_new_time fmu s \<noteq> Return r s'"
  by (auto simp: set_new_time_def error_defs split: prod.splits if_splits)

lemma perform_step_kind: "perform_step fmu s \<noteq> Break s'" "perform_step fmu s = Return r s' \<Longrightarrow> r = 0"
  by (auto simp: perform_step_def error_defs split: prod.splits if_splits)

lemma check_step_event_kind: "check_step_event fmu s \<noteq> Break s'" "check_step_event fmu s = Return r s' \<Longrightarrow> r = 0"
  by (auto simp: check_step_event_def error_defs split: prod.splits if_splits)

lemma check_state_event_kind: "check_state_event fmu s \<noteq> Break s'" "check_state_event fmu s = Return r s' \<Longrightarrow> r = 0"
  by (auto simp: check_state_event_def error_defs split: prod.splits if_splits)

lemma handle_events_kind: "handle_events fmu s = Return r s' \<Longrightarrow> r = 0"
  by (auto simp: handle_events_def error_defs split: prod.splits if_splits)

lemma output_step_kind: "output_step s \<noteq> Break s'" "output_step s \<noteq> Return r s'"
  by (simp_all add: output_step_def Let_def)

lemmas segment_kinds = get_states_kind(1) get_derivatives_kind(1) set_new_time_kind perform_step_kind(1)
  check_step_event_kind(1) check_state_event_kind(1) output_step_kind

lemma advance_simtime_fields:
  "simtime_' (advance_simtime s) =
     (if upcomingTimeEvent (eventInfo_' s) \<and>
         nextEventTime (eventInfo_' s) < min_macro (simtime_' s + h_' s) (tEnd_' s)
      then nextEventTime (eventInfo_' s) else min_macro (simtime_' s + h_' s) (tEnd_' s))"
  "timeEvent_' (advance_simtime s) =
     (upcomingTimeEvent (eventInfo_' s) \<and>
      nextEventTime (eventInfo_' s) < min_macro (simtime_' s + h_' s) (tEnd_' s))"
  "dt_' (advance_simtime s) = simtime_' (advance_simtime s) - simtime_' s"
  "tPre_' (advance_simtime s) = simtime_' s"
  by (simp_all add: advance_simtime_def Let_def)

lemma advance_simtime_keeps:
  "c_' (advance_simtime s) = c_' s" "tEnd_' (advance_simtime s) = tEnd_' s"
  "h_' (advance_simtime s) = h_' s" "file_' (advance_simtime s) = file_' s"
  "nx_' (advance_simtime s) = nx_' s" "nz_' (advance_simtime s) = nz_' s"
  "x_' (advance_simtime s) = x_' s" "xdot_' (advance_simtime s) = xdot_' s"
  "z_' (advance_simtime s) = z_' s" "prez_' (advance_simtime s) = prez_' s"
  "eventInfo_' (advance_simtime s) = eventInfo_' s" "trace (advance_simtime s) = trace s"
  "nSteps_' (advance_simtime s) = nSteps_' s" "nStateEvents_' (advance_simtime s) = nStateEvents_' s"
  "nTimeEvents_' (advance_simtime s) = nTimeEvents_' s" "nStepEvents_' (advance_simtime s) = nStepEvents_' s"
  "stepEvent_' (advance_simtime s) = stepEvent_' s" "stateEvent_' (advance_simtime s) = stateEvent_' s"
  by (simp_all add: advance_simtime_def Let_def)


lemma count_events_fields:
  "nStateEvents_' (count_events s) = (if stateEvent_' s then nStateEvents_' s + 1 else nStateEvents_' s)"
  "nTimeEvents_' (count_events s) = (if timeEvent_' s then nTimeEvents_' s + 1 else nTimeEvents_' s)"
  "nStepEvents_' (count_events s) = (if stepEvent_' s then nStepEvents_' s + 1 else nStepEvents_' s)"
  by (simp_all add: count_events_def Let_def)

lemma handle_events_keeps:
  assumes s': "s' = flow_state (handle_events fmu s)"
  shows "simtime_' s' = simtime_' s" "dt_' s' = dt_' s" "timeEvent_' s' = timeEvent_' s"
    "tEnd_' s' = tEnd_' s" "h_' s' = h_' s" "file_' s' = file_' s" "nx_' s' = nx_' s" "nz_' s' = nz_' s"
    "prez_' s' = prez_' s" "z_' s' = z_' s" "stateEvent_' s' = stateEvent_' s" "nSteps_' s' = nSteps_' s"
    "rows (trace s') = rows (trace s)" "set_times (trace s') = set_times (trace s)"
proof -
  obtain c1 ei k1 k2 k3 tr where e: "s' = s\<lparr>nTimeEvents_' := k1, nStateEvents_' := k2,
      nStepEvents_' := k3, c_' := c1, eventInfo_' := ei, trace := trace s @ tr\<rparr>"
    and t: "rows tr = []" "set_times tr = []"
    unfolding s' using handle_events_effect [of fmu s] by auto
  show "simtime_' s' = simtime_' s" "dt_' s' = dt_' s" "timeEvent_' s' = timeEvent_' s"
    "tEnd_' s' = tEnd_' s" "h_' s' = h_' s" "file_' s' = file_' s" "nx_' s' = nx_' s" "nz_' s' = nz_' s"
    "prez_' s' = prez_' s" "z_' s' = z_' s" "stateEvent_' s' = stateEvent_' s" "nSteps_' s' = nSteps_' s"
    "rows (trace s') = rows (trace s)" "set_times (trace s') = set_times (trace s)"
    by (simp_all add: e t rows_append set_times_append)
qed

lemma handle_events_nStateEvents:
  "nStateEvents_' (flow_state (handle_events fmu s)) =
     (if stateEvent_' s then nStateEvents_' s + 1 else nStateEvents_' s)"
  by (cases "eventUpdate fmu (c_' s) False (eventInfo_' s)")
    (auto simp: handle_events_def error_defs count_events_def)




lemma segments_abort_on_error:
  "status_gt (fst (getContinuousStates fmu (c_' s) (x_' s) (nx_' s))) fmiWarning \<Longrightarrow>
     \<exists>s'. get_states fmu s = Return 0 s' \<and>
       trace s' = trace s @ [GetContinuousStates, FmuError ''could not retrieve states'']"
  "status_gt (fst (getDerivatives fmu (c_' s) (xdot_' s) (nx_' s))) fmiWarning \<Longrightarrow>
     \<exists>s'. get_derivatives fmu s = Return 0 s' \<and>
       trace s' = trace s @ [GetDerivatives, FmuError ''could not retrieve derivatives'']"
  "status_gt (fst (setContinuousStates fmu (c_' s)
       (euler_loop 0 (nx_' s) (dt_' s) (xdot_' s) (x_' s)) (nx_' s))) fmiWarning \<Longrightarrow>
     \<exists>s'. perform_step fmu s = Return 0 s' \<and>
       trace s' = trace s @ [SetContinuousStates (euler_loop 0 (nx_' s) (dt_' s) (xdot_' s) (x_' s)),
         FmuError ''could not set states'']"
  "status_gt (fst (completedIntegratorStep fmu (c_' s))) fmiWarning \<Longrightarrow>
     \<exists>s'. check_step_event fmu s = Return 0 s' \<and>
       trace s' = trace s @ [CompletedIntegratorStep, FmuError ''could not complete intgrator step'']"
  "status_gt (fst (getEventIndicators fmu (c_' s) (z_' s) (nz_' s))) fmiWarning \<Longrightarrow>
     \<exists>s'. check_state_event fmu s = Return 0 s' \<and>
       trace s' = trace s @ [GetEventIndicators, FmuError ''could not retrieve event indicators'']"
  "timeEvent_' s \<or> stateEvent_' s \<or> stepEvent_' s \<Longrightarrow>
   status_gt (fst (eventUpdate fmu (c_' s) False (eventInfo_' s))) fmiWarning \<Longrightarrow>
     \<exists>s'. handle_events fmu s = Return 0 s' \<and>
       trace s' = trace s @ [EventUpdate False, FmuError ''could not perform event update'']"
  by (auto simp: get_states_def get_derivatives_def perform_step_def check_step_event_def
      check_state_event_def handle_events_def count_events_def error_defs split: prod.splits)





subsection \<open>One pass through the loop body\<close>

lemma loop_body_Next:
  assumes "loop_body fmu s = Next s'"
  obtains s1 s2 s4 s5 s6 s7 s8 where
    "get_states fmu s = Next s1" "get_derivatives fmu s1 = Next s2"
    "set_new_time fmu (advance_simtime s2) = Next s4" "perform_step fmu s4 = Next s5"
    "check_step_event fmu s5 = Next s6" "check_state_event fmu s6 = Next s7"
    "handle_events fmu s7 = Next s8" "output_step s8 = Next s'"
  using assms by (auto simp: loop_body_def split: flow.splits)

lemma loop_body_Break:
  assumes "loop_body fmu s = Break s'"
  obtains s1 s2 s4 s5 s6 s7 where
    "get_states fmu s = Next s1" "get_derivatives fmu s1 = Next s2"
    "set_new_time fmu (advance_simtime s2) = Next s4" "perform_step fmu s4 = Next s5"
    "check_step_event fmu s5 = Next s6" "check_state_event fmu s6 = Next s7"
    "handle_events fmu s7 = Break s'"
  using assms by (auto simp: loop_body_def segment_kinds split: flow.splits)

lemma loop_body_Return: "loop_body fmu s = Return r s' \<Longrightarrow> r = 0"
  by (auto simp: loop_body_def segment_kinds split: flow.splits
      dest: get_states_kind(2) get_derivatives_kind(2) perform_step_kind(2) check_step_event_kind(2)
        check_state_event_kind(2) handle_events_kind)

lemma loop_body_prefix:
  assumes "get_states fmu s = Next s1" "get_derivatives fmu s1 = Next s2"
    "set_new_time fmu (advance_simtime s2) = Next s4" "perform_step fmu s4 = Next s5"
    "check_step_event fmu s5 = Next s6" "check_state_event fmu s6 = Next s7"
  shows "simtime_' s7 = simtime_' (advance_simtime s)"
    and "dt_' s7 = dt_' (advance_simtime s)"
    and "timeEvent_' s7 = timeEvent_' (advance_simtime s)"
    and "tEnd_' s7 = tEnd_' s" and "h_' s7 = h_' s" and "file_' s7 = file_' s"
    and "nx_' s7 = nx_' s" and "nz_' s7 = nz_' s"
    and "eventInfo_' s7 = eventInfo_' s" and "nSteps_' s7 = nSteps_' s"
    and "nStateEvents_' s7 = nStateEvents_' s"
    and "rows (trace s7) = rows (trace s)"
    and "set_times (trace s7) = set_times (trace s) @ [simtime_' (advance_simtime s)]"
    and "prez_' s7 = copy_loop 0 (nz_' s) (z_' s) (prez_' s)"
    and "stateEvent_' s7 = stateEvent_loop 0 (nz_' s) (prez_' s7) (z_' s7) False"
    and "\<exists>c. z_' s7 = fst (snd (getEventIndicators fmu c (z_' s) (nz_' s)))"
proof -
  obtain c1 x1 tr1 where e1: "s1 = s\<lparr>c_' := c1, x_' := x1, trace := trace s @ tr1\<rparr>"
    and t1: "rows tr1 = []" "set_times tr1 = []"
    using get_states_effect [of fmu s] assms(1) by auto
  obtain c2 x2 tr2 where e2: "s2 = s1\<lparr>c_' := c2, xdot_' := x2, trace := trace s1 @ tr2\<rparr>"
    and t2: "rows tr2 = []" "set_times tr2 = []"
    using get_derivatives_effect [of fmu s1] assms(2) by auto
  obtain c4 tr4 where e4: "s4 = (advance_simtime s2)\<lparr>c_' := c4, trace := trace (advance_simtime s2) @ tr4\<rparr>"
    and t4: "rows tr4 = []" "set_times tr4 = [simtime_' (advance_simtime s2)]"
    using set_new_time_effect [of fmu "advance_simtime s2"] assms(3) by auto
  obtain c5 tr5 where e5: "s5 = s4\<lparr>x_' := euler_loop 0 (nx_' s4) (dt_' s4) (xdot_' s4) (x_' s4),
      c_' := c5, trace := trace s4 @ tr5\<rparr>"
    and t5: "rows tr5 = []" "set_times tr5 = []"
    using perform_step_effect [of fmu s4] assms(4) by auto
  obtain c6 b6 tr6 where e6: "s6 = s5\<lparr>c_' := c6, stepEvent_' := b6, trace := trace s5 @ tr6\<rparr>"
    and t6: "rows tr6 = []" "set_times tr6 = []"
    using check_step_event_effect [of fmu s5] assms(5) by auto
  obtain c7 z7 b7 tr7 where e7: "s7 = s6\<lparr>prez_' := copy_loop 0 (nz_' s6) (z_' s6) (prez_' s6),
      c_' := c7, z_' := z7, trace := trace s6 @ tr7, stateEvent_' := b7\<rparr>"
    and t7: "rows tr7 = []" "set_times tr7 = []"
    using check_state_event_effect [of fmu s6] assms(6) by auto
  note n7 = check_state_event_Next [OF assms(6)]
  have adv: "simtime_' (advance_simtime s2) = simtime_' (advance_simtime s)"
    "timeEvent_' (advance_simtime s2) = timeEvent_' (advance_simtime s)"
    "dt_' (advance_simtime s2) = dt_' (advance_simtime s)"
    by (simp_all add: advance_simtime_fields e1 e2)
  have s6: "nz_' s6 = nz_' s" "z_' s6 = z_' s" "prez_' s6 = prez_' s"
    by (simp_all add: e1 e2 e4 e5 e6 advance_simtime_keeps)
  show "simtime_' s7 = simtime_' (advance_simtime s)"
    by (simp add: e7 e6 e5 e4 adv)
  show "dt_' s7 = dt_' (advance_simtime s)"
    by (simp add: e7 e6 e5 e4 adv)
  show "timeEvent_' s7 = timeEvent_' (advance_simtime s)"
    by (simp add: e7 e6 e5 e4 adv)
  show "tEnd_' s7 = tEnd_' s" "h_' s7 = h_' s" "file_' s7 = file_' s" "nx_' s7 = nx_' s" "nz_' s7 = nz_' s"
    "eventInfo_' s7 = eventInfo_' s" "nSteps_' s7 = nSteps_' s" "nStateEvents_' s7 = nStateEvents_' s"
    by (simp_all add: e7 e6 e5 e4 e2 e1 advance_simtime_keeps)
  show "rows (trace s7) = rows (trace s)"
    by (simp add: e7 e6 e5 e4 e2 e1 advance_simtime_keeps rows_append t1 t2 t4 t5 t6 t7)
  show "set_times (trace s7) = set_times (trace s) @ [simtime_' (advance_simtime s)]"
    by (simp add: e7 e6 e5 e4 e2 e1 advance_simtime_keeps set_times_append t1 t2 t4 [unfolded adv] t5 t6 t7)
  show "prez_' s7 = copy_loop 0 (nz_' s) (z_' s) (prez_' s)"
    using n7 by (simp add: s6)
  show "stateEvent_' s7 = stateEvent_loop 0 (nz_' s) (prez_' s7) (z_' s7) False"
    using n7 by (simp add: s6)
  show "\<exists>c. z_' s7 = fst (snd (getEventIndicators fmu c (z_' s) (nz_' s)))"
    using n7 by (simp add: s6)
qed

text \<open>What an iteration that reaches the event handling has done, whether it then completes or breaks.\<close>

lemma loop_body_step:
  assumes "loop_body fmu s = Next s' \<or> loop_body fmu s = Break s'"
  shows "simtime_' s' = simtime_' (advance_simtime s)"
    and "dt_' s' = dt_' (advance_simtime s)"
    and "timeEvent_' s' = timeEvent_' (advance_simtime s)"
    and "tEnd_' s' = tEnd_' s" and "h_' s' = h_' s" and "file_' s' = file_' s"
    and "nx_' s' = nx_' s" and "nz_' s' = nz_' s"
    and "set_times (trace s') = set_times (trace s) @ [simtime_' (advance_simtime s)]"
    and "prez_' s' = copy_loop 0 (nz_' s) (z_' s) (prez_' s)"
    and "stateEvent_' s' = stateEvent_loop 0 (nz_' s) (prez_' s') (z_' s') False"
    and "\<exists>c. z_' s' = fst (snd (getEventIndicators fmu c (z_' s) (nz_' s)))"
    and "nStateEvents_' s' = (if stateEvent_' s' then nStateEvents_' s + 1 else nStateEvents_' s)"
proof -
  obtain s7 s8 where pre: "simtime_' s7 = simtime_' (advance_simtime s)"
      "dt_' s7 = dt_' (advance_simtime s)" "timeEvent_' s7 = timeEvent_' (advance_simtime s)"
      "tEnd_' s7 = tEnd_' s" "h_' s7 = h_' s" "file_' s7 = file_' s" "nx_' s7 = nx_' s" "nz_' s7 = nz_' s"
      "set_times (trace s7) = set_times (trace s) @ [simtime_' (advance_simtime s)]"
      "prez_' s7 = copy_loop 0 (nz_' s) (z_' s) (prez_' s)"
      "stateEvent_' s7 = stateEvent_loop 0 (nz_' s) (prez_' s7) (z_' s7) False"
      "\<exists>c. z_' s7 = fst (snd (getEventIndicators fmu c (z_' s) (nz_' s)))"
      "nStateEvents_' s7 = nStateEvents_' s"
    and s8: "s8 = flow_state (handle_events fmu s7)"
    and last: "s' = s8 \<or> output_step s8 = Next s'"
  proof (rule disjE [OF assms])
    assume "loop_body fmu s = Next s'"
    then show ?thesis
      by (elim loop_body_Next) (rule that, (erule (5) loop_body_prefix)+, simp, simp)
  next
    assume "loop_body fmu s = Break s'"
    then show ?thesis
      by (elim loop_body_Break) (rule that, (erule (5) loop_body_prefix)+, simp, simp)
  qed
  note k = handle_events_keeps [OF s8]
  have fin: "simtime_' s' = simtime_' s8" "dt_' s' = dt_' s8" "timeEvent_' s' = timeEvent_' s8"
    "tEnd_' s' = tEnd_' s8" "h_' s' = h_' s8" "file_' s' = file_' s8" "nx_' s' = nx_' s8"
    "nz_' s' = nz_' s8" "set_times (trace s') = set_times (trace s8)" "prez_' s' = prez_' s8"
    "z_' s' = z_' s8" "stateEvent_' s' = stateEvent_' s8" "nStateEvents_' s' = nStateEvents_' s8"
    using last by (auto simp: output_step_effect set_times_append)
  show "simtime_' s' = simtime_' (advance_simtime s)" "dt_' s' = dt_' (advance_simtime s)"
    "timeEvent_' s' = timeEvent_' (advance_simtime s)" "tEnd_' s' = tEnd_' s" "h_' s' = h_' s"
    "file_' s' = file_' s" "nx_' s' = nx_' s" "nz_' s' = nz_' s"
    "set_times (trace s') = set_times (trace s) @ [simtime_' (advance_simtime s)]"
    "prez_' s' = copy_loop 0 (nz_' s) (z_' s) (prez_' s)"
    "stateEvent_' s' = stateEvent_loop 0 (nz_' s) (prez_' s') (z_' s') False"
    "\<exists>c. z_' s' = fst (snd (getEventIndicators fmu c (z_' s) (nz_' s)))"
    by (simp_all add: fin k pre)
  show "nStateEvents_' s' = (if stateEvent_' s' then nStateEvents_' s + 1 else nStateEvents_' s)"
    by (simp add: fin k handle_events_nStateEvents [of fmu s7, folded s8] pre)
qed












subsection \<open>The loop\<close>








subsection \<open>The function around the loop\<close>

lemma setup_frame:
  assumes "fmuSimulate_setup fmu e tEnd h loggingOn resultFileName = Inr s0"
  shows "simtime_' s0 = t0"
    and "tEnd_' s0 = (if terminateSimulation (eventInfo_' s0) then t0 else tEnd)"
    and "h_' s0 = h" and "nSteps_' s0 = 0" and "nStateEvents_' s0 = 0"
    and "nz_' s0 = numberOfEventIndicators fmu"
    and "z_' s0 = replicate (numberOfEventIndicators fmu) 0"
    and "prez_' s0 = replicate (numberOfEventIndicators fmu) 0"
    and "set_times (trace s0) = [t0]"
    and "rows (trace s0) = (if file_' s0 \<noteq> None then [(t0, True), (t0, False)] else [])"
    and "file_' s0 = None \<longleftrightarrow> resultFileName = None"
  using assms
  by (auto simp: fmuSimulate_setup_def open_result_file_def outputRow_def fmuError_def Let_def
      rows_append set_times_append
      split: option.splits if_splits sum.splits prod.splits)





subsection \<open>The claims\<close>





text \<open>
  C3. The claim that every Model operation reporting a status worse than a warning aborts
  the loop at that point fails for \<^verbatim>\<open>setTime\<close> inside the loop: line 112 calls
  \<^verbatim>\<open>fmuError\<close> without returning its value. The model below fails every
  \<^verbatim>\<open>setTime\<close> for a time after 0; the run reports the error, goes on to set the states,
  completes the step, emits its row and returns 1.
\<close>

theorem failed_setTime_does_not_abort:
  "fmuSimulate 5 no_clock libc 1 1 False (CHR '';'') (Some ''-'') =
     (Some 1,
      [InstantiateModel False, SetTime 0, Initialize False 0, OutputRow 0 True, OutputRow 0 False,
       GetContinuousStates, GetDerivatives, SetTime 1, FmuError ''could not set time'',
       SetContinuousStates [2], CompletedIntegratorStep, GetEventIndicators, OutputRow 1 False,
       FreeModelInstance, Fclose, Summary 1 0 0 0])"
  by code_simp




text \<open>
  C5. The claim that the instance is released and the file closed on every way out fails
  for the abort on an operation error: the \<^verbatim>\<open>return fmuError(...)\<close> statements of the
  loop leave the function before line 179. The model below fails \<^verbatim>\<open>getContinuousStates\<close>;
  the run opens \<^verbatim>\<open>out.csv\<close>, writes the first two rows and returns 0 with neither
  \<^verbatim>\<open>freeModelInstance\<close> nor \<^verbatim>\<open>fclose\<close> called.
\<close>

theorem abort_skips_cleanup:
  "fmuSimulate 5 no_states libc 1 1 False (CHR '';'') (Some ''out.csv'') =
     (Some 0,
      [InstantiateModel False, Fopen ''out.csv'', SetTime 0, Initialize False 0,
       OutputRow 0 True, OutputRow 0 False, GetContinuousStates,
       FmuError ''could not retrieve states''])"
  by code_simp

text \<open>
  C6. The claim that the first comparison of a run sees the first sampled indicators in
  \<^verbatim>\<open>prez\<close>, and never zero-initialised memory, fails: in the first pass of the run below
  the sampled indicators are \<open>[-1]\<close> and \<^verbatim>\<open>prez\<close> is \<open>[0]\<close>.
\<close>

theorem first_comparison_uses_zeros_counterexample:
  "fmuSimulate_setup ramp libc 1 1 False None = Inr (entry ramp 1 1 None) \<and>
   loop_body ramp (entry ramp 1 1 None) = Next (flow_state (loop_body ramp (entry ramp 1 1 None))) \<and>
   z_' (flow_state (loop_body ramp (entry ramp 1 1 None))) = [- 1] \<and>
   prez_' (flow_state (loop_body ramp (entry ramp 1 1 None))) = [0] \<and>
   prez_' (flow_state (loop_body ramp (entry ramp 1 1 None))) \<noteq>
     z_' (flow_state (loop_body ramp (entry ramp 1 1 None)))"
  by code_simp

text \<open>
  C6, as amended. At each comparison \<^verbatim>\<open>prez\<close> holds what \<^verbatim>\<open>z\<close> held when the pass began:
  the zeros of the allocation in the first pass of a run (no indicators are sampled before
  the loop), and in every later pass the values that \<^verbatim>\<open>getEventIndicators\<close> delivered in
  the pass before, given that the model leaves the array at its length. The flag compares
  these two generations.
\<close>

theorem previous_indicators_at_comparison:
  assumes "loop_body fmu s = Next s' \<or> loop_body fmu s = Break s'"
  shows "(fmuSimulate_setup fmu e tEnd h loggingOn resultFileName = Inr s \<longrightarrow>
            length (z_' s) = nz_' s \<and> length (prez_' s) = nz_' s \<and>
            z_' s = replicate (nz_' s) 0 \<and> prez_' s' = replicate (nz_' s) 0) \<and>
         (length (z_' s) = nz_' s \<and> length (prez_' s) = nz_' s \<longrightarrow>
            prez_' s' = z_' s \<and> length (prez_' s') = nz_' s' \<and>
            (\<exists>c. z_' s' = fst (snd (getEventIndicators fmu c (z_' s) (nz_' s)))) \<and>
            (stateEvent_' s' \<longleftrightarrow> (\<exists>i<nz_' s. z_' s ! i * z_' s' ! i < 0)))"
proof -
  note step = loop_body_step [OF assms]
  have later: "prez_' s' = z_' s \<and> length (prez_' s') = nz_' s' \<and>
      (\<exists>c. z_' s' = fst (snd (getEventIndicators fmu c (z_' s) (nz_' s)))) \<and>
      (stateEvent_' s' \<longleftrightarrow> (\<exists>i<nz_' s. z_' s ! i * z_' s' ! i < 0))"
    if len: "length (z_' s) = nz_' s \<and> length (prez_' s) = nz_' s"
  proof -
    have prez: "prez_' s' = z_' s"
      using step(10) len by (simp add: copy_loop_all)
    have "stateEvent_' s' \<longleftrightarrow> (\<exists>i<nz_' s. z_' s ! i * z_' s' ! i < 0)"
      using step(11) by (simp add: prez stateEvent_loop_iff)
    with prez step(12) step(8) len show ?thesis by simp
  qed
  have first: "length (z_' s) = nz_' s \<and> length (prez_' s) = nz_' s \<and>
      z_' s = replicate (nz_' s) 0 \<and> prez_' s' = replicate (nz_' s) 0"
    if "fmuSimulate_setup fmu e tEnd h loggingOn resultFileName = Inr s"
  proof -
    note s0 = setup_frame [OF that]
    have len: "length (z_' s) = nz_' s \<and> length (prez_' s) = nz_' s"
      by (simp add: s0)
    with later have "prez_' s' = z_' s" by blast
    with len show ?thesis by (simp add: s0)
  qed
  from first later show ?thesis by blast
qed

theorem previous_indicators_at_comparison_witness:
  "prez_' (flow_state (loop_body ramp (entry ramp 1 (1 / 4) None))) = [0] \<and>
   z_' (flow_state (loop_body ramp (entry ramp 1 (1 / 4) None))) = [1 / 2] \<and>
   prez_' (flow_state (loop_body ramp (flow_state (loop_body ramp (entry ramp 1 (1 / 4) None))))) = [1 / 2] \<and>
   z_' (flow_state (loop_body ramp (flow_state (loop_body ramp (entry ramp 1 (1 / 4) None))))) = [0]"
proof -
  let ?s0 = "entry ramp 1 (1 / 4) None"
  let ?s1 = "flow_state (loop_body ramp ?s0)"
  let ?s2 = "flow_state (loop_body ramp ?s1)"
  have a: "fmuSimulate_setup ramp libc 1 (1 / 4) False None = Inr ?s0" by code_simp
  have b: "loop_body ramp ?s0 = Next ?s1 \<or> loop_body ramp ?s0 = Break ?s1" by code_simp
  have c: "loop_body ramp ?s1 = Next ?s2 \<or> loop_body ramp ?s1 = Break ?s2" by code_simp
  have d: "length (z_' ?s1) = nz_' ?s1 \<and> length (prez_' ?s1) = nz_' ?s1" by code_simp
  have e: "nz_' ?s0 = 1" "z_' ?s1 = [1 / 2]" "z_' ?s2 = [0]" by code_simp+
  from previous_indicators_at_comparison [OF b, of libc 1 "1 / 4" False None] a e
  have f: "prez_' ?s1 = [0]" by simp
  from previous_indicators_at_comparison [OF c, of libc 1 "1 / 4" False None] d e
  have g: "prez_' ?s2 = [1 / 2]" by simp
  from f g e show ?thesis by simp
qed








text \<open>
  C10. The first pass through the loop never sets the state-event flag: the arrays come
  from \<^verbatim>\<open>calloc\<close>, so line 125 copies zeros into \<^verbatim>\<open>prez\<close>, every product
  \<open>prez[i] * z[i]\<close> of the first comparison is zero, and no state event is counted,
  whatever the model reports. In the run below the indicator of the model is 1 at the start
  and -1 after the first step, and the flag stays unset.
\<close>

theorem first_iteration_never_flags_state_event:
  assumes "fmuSimulate_setup fmu e tEnd h loggingOn resultFileName = Inr s0"
    and "loop_body fmu s0 = Next s' \<or> loop_body fmu s0 = Break s'"
  shows "prez_' s' = replicate (numberOfEventIndicators fmu) 0 \<and>
         (\<forall>i<numberOfEventIndicators fmu. prez_' s' ! i * z_' s' ! i = 0) \<and>
         \<not> stateEvent_' s' \<and> nStateEvents_' s' = 0"
proof -
  note s0 = setup_frame [OF assms(1)]
  note step = loop_body_step [OF assms(2)]
  have prez: "prez_' s' = replicate (numberOfEventIndicators fmu) 0"
    using step(10) by (simp add: s0 copy_loop_all)
  then have zero: "\<forall>i<numberOfEventIndicators fmu. prez_' s' ! i * z_' s' ! i = 0"
    by simp
  have "\<not> (\<exists>i<numberOfEventIndicators fmu. prez_' s' ! i * z_' s' ! i < 0)"
    by (simp add: prez)
  then have flag: "\<not> stateEvent_' s'"
    unfolding step(11) stateEvent_loop_iff by (simp add: s0)
  then have "nStateEvents_' s' = 0"
    using step(13) by (simp add: s0)
  with prez zero flag show ?thesis by (intro conjI)
qed

theorem first_iteration_never_flags_state_event_witness:
  "fst (snd (getEventIndicators ramp [0] [0] 1)) = [1] \<and>
   z_' (flow_state (loop_body ramp (entry ramp 1 1 None))) = [- 1] \<and>
   prez_' (flow_state (loop_body ramp (entry ramp 1 1 None))) = [0] \<and>
   \<not> stateEvent_' (flow_state (loop_body ramp (entry ramp 1 1 None))) \<and>
   nStateEvents_' (flow_state (loop_body ramp (entry ramp 1 1 None))) = 0"
proof -
  let ?s = "entry ramp 1 1 None"
  have a: "fmuSimulate_setup ramp libc 1 1 False None = Inr ?s" by code_simp
  have b: "loop_body ramp ?s = Next (flow_state (loop_body ramp ?s)) \<or>
      loop_body ramp ?s = Break (flow_state (loop_body ramp ?s))" by code_simp
  have c: "fst (snd (getEventIndicators ramp [0] [0] 1)) = [1]" by code_simp
  have d: "z_' (flow_state (loop_body ramp ?s)) = [- 1]" by code_simp
  have e: "numberOfEventIndicators ramp = 1" by code_simp
  from first_iteration_never_flags_state_event [OF a b] c d e show ?thesis by simp
qed

end
